theory Spec2Isabelle
  imports Main "HOL-Library.Sublist" "HOL-Library.AList"
begin

section \<open>Values shared by the scope engine and the resolver\<close>

text \<open>
  Go's \<^verbatim>\<open>time.Time\<close>, counted in nanoseconds elapsed since the zero instant
  (January 1, year 1, 00:00:00 UTC), so that \<^verbatim>\<open>IsZero\<close> is the test for 0.
  The layout \<^verbatim>\<open>"2006-01-02 15:04:05"\<close> prints whole seconds only; the printed
  text is represented by the number of whole seconds it denotes.
\<close>

type_synonym time = nat

definition IsZero :: "time \<Rightarrow> bool" where
  "IsZero t = (t = 0)"

definition Format :: "time \<Rightarrow> nat" where
  "Format t = t div 1000000000"

text \<open>
  \<^verbatim>\<open>netip.Addr\<close>: the zero value, an IPv4 address, or an IPv6 address with its zone.
\<close>

datatype Addr = AddrZero | Addr4 nat | Addr6 nat string

fun Is4 :: "Addr \<Rightarrow> bool" where
  "Is4 (Addr4 v) = True"
| "Is4 a = False"

fun Is6 :: "Addr \<Rightarrow> bool" where
  "Is6 (Addr6 v z) = True"
| "Is6 a = False"

text \<open>\<^verbatim>\<open>netip.Prefix\<close>: an address and a prefix length.\<close>

type_synonym Prefix = "Addr \<times> nat"

text \<open>
  The functions of Go's standard library that the code calls and whose definitions are
  not part of the repository: \<^verbatim>\<open>netip.ParseAddr\<close> (its error is \<open>None\<close>),
  \<^verbatim>\<open>netip.Addr.String\<close>, \<^verbatim>\<open>strings.ToLower\<close> and \<^verbatim>\<open>strings.EqualFold\<close>.
  They are parameters of the model.
\<close>

record golib =
  ParseAddr :: "string \<Rightarrow> Addr option"
  AddrString :: "Addr \<Rightarrow> string"
  ToLower :: "string \<Rightarrow> string"
  EqualFold :: "string \<Rightarrow> string \<Rightarrow> bool"

text \<open>
  \<^verbatim>\<open>oam.Asset\<close>: the asset kinds of the open asset model, each with the fields the
  code reads. \<open>OtherAsset\<close> stands for every further implementation of the interface
  (its asset-type tag is the argument).
\<close>

datatype asset =
    FQDN (Name: string)
  | EmailAddress (Domain: string)
  | IPAddress (Address: Addr) (AddrType: string)
  | Netblock (CIDR: Prefix) (NetType: string)
  | AutonomousSystem (Number: int)
  | DomainRecord (RecDomain: string) (RecName: string)
  | IPNetRecord (RecCIDR: Prefix) (RecType: string)
  | AutnumRecord (RecNumber: int) (AutName: string)
  | TLSCertificate (SubjectCommonName: string)
  | URL (Host: string)
  | Organization (OrgName: string)
  | Location (LocAddress: string)
  | Fingerprint (FinValue: string) (FinType: string)
  | OtherAsset string

section \<open>Scope membership: scope.go\<close>

text \<open>
  The matchers are methods of \<^verbatim>\<open>*Scope\<close> defined in files of the package that are
  not among the sources; \<open>IsAssetInScope\<close> takes them as the fields of the scope.
  Each returns the matched asset (\<open>None\<close> is Go's nil) and an accuracy.
\<close>

record Scope =
  matchesDomain :: "asset \<Rightarrow> asset option \<times> int"
  addressInScope :: "asset \<Rightarrow> asset option \<times> int"
  matchesNetblock :: "asset \<Rightarrow> asset option \<times> int"
  matchesAutonomousSystem :: "asset \<Rightarrow> asset option \<times> int"
  matchesOrg :: "asset \<Rightarrow> int \<Rightarrow> asset option \<times> int"
  matchesLocation :: "asset \<Rightarrow> int \<Rightarrow> asset option \<times> int"
  matchesFin :: "asset \<Rightarrow> asset option \<times> int"

text \<open>
  \<^verbatim>\<open>IsAssetInScope\<close>, lines 63-103: the type switch, one equation per case in the
  source's order; a kind with no case leaves \<^verbatim>\<open>match\<close> and \<^verbatim>\<open>accuracy\<close>
  at their zero values.
\<close>

fun IsAssetInScope :: "Scope \<Rightarrow> asset \<Rightarrow> int \<Rightarrow> asset option \<times> int" where
  "IsAssetInScope s (FQDN n) conf = matchesDomain s (FQDN n)"
| "IsAssetInScope s (EmailAddress d) conf = matchesDomain s (FQDN d)"
| "IsAssetInScope s (IPAddress a t) conf = addressInScope s (IPAddress a t)"
| "IsAssetInScope s (Netblock c t) conf = matchesNetblock s (Netblock c t)"
| "IsAssetInScope s (AutonomousSystem n) conf =
     matchesAutonomousSystem s (AutonomousSystem n)"
| "IsAssetInScope s (DomainRecord d n) conf =
     (case matchesDomain s (FQDN d) of (match, accuracy) \<Rightarrow>
        if match = None \<or> accuracy = 0 then matchesOrg s (Organization n) conf
        else (match, accuracy))"
| "IsAssetInScope s (IPNetRecord c t) conf = matchesNetblock s (Netblock c t)"
| "IsAssetInScope s (AutnumRecord num n) conf =
     (case matchesAutonomousSystem s (AutonomousSystem num) of (match, accuracy) \<Rightarrow>
        if match = None \<or> accuracy = 0 then matchesOrg s (Organization n) conf
        else (match, accuracy))"
| "IsAssetInScope s (TLSCertificate cn) conf = matchesDomain s (FQDN cn)"
| "IsAssetInScope s (URL h) conf = matchesDomain s (FQDN h)"
| "IsAssetInScope s (Organization n) conf = matchesOrg s (Organization n) conf"
| "IsAssetInScope s (Location a) conf = matchesLocation s (Location a) conf"
| "IsAssetInScope s (Fingerprint v t) conf = matchesFin s (Fingerprint v t)"
| "IsAssetInScope s (OtherAsset k) conf = (None, 0)"

text \<open>
  A result counts as a match when the asset is not nil and the accuracy is not 0: the
  test \<^verbatim>\<open>match == nil || accuracy == 0\<close> of lines 80 and 87, negated.
\<close>

definition isMatch :: "asset option \<times> int \<Rightarrow> bool" where
  "isMatch r = (fst r \<noteq> None \<and> snd r \<noteq> 0)"

text \<open>The kinds that have a case in the type switch.\<close>

fun handledKind :: "asset \<Rightarrow> bool" where
  "handledKind (OtherAsset k) = False"
| "handledKind a = True"





text \<open>
  A scope for the examples: the registry holds the domain example.com, the autonomous
  system 64500 and the organization "Example Corp". The domain matcher answers the
  registered domain itself with accuracy 100 and its subdomain www.example.com with the
  parent domain and a lower accuracy.
\<close>

definition exampleScope :: Scope where
  "exampleScope = \<lparr>
     matchesDomain = (\<lambda>a.
       if a = FQDN ''example.com'' then (Some (FQDN ''example.com''), 100)
       else if a = FQDN ''www.example.com'' then (Some (FQDN ''example.com''), 50)
       else (None, 0)),
     addressInScope = (\<lambda>a. (None, 0)),
     matchesNetblock = (\<lambda>a. (None, 0)),
     matchesAutonomousSystem = (\<lambda>a.
       if a = AutonomousSystem 64500 then (Some (AutonomousSystem 64500), 100)
       else (None, 0)),
     matchesOrg = (\<lambda>a conf.
       if a = Organization ''Example Corp'' then (Some (Organization ''Example Corp''), 100)
       else (None, 0)),
     matchesLocation = (\<lambda>a conf. (None, 0)),
     matchesFin = (\<lambda>a. (None, 0)) \<rparr>"

section \<open>Name-to-address resolution: NamesToAddrs\<close>

subsection \<open>String sets and the name-to-addresses map\<close>

text \<open>
  \<^verbatim>\<open>stringset.Set\<close> (caffix/stringset) keeps each element under its lower-cased
  form; \<^verbatim>\<open>Has\<close>, \<^verbatim>\<open>Insert\<close> and \<^verbatim>\<open>Remove\<close> lower-case their argument first.
  Go leaves the order of \<^verbatim>\<open>Slice\<close> open; the model keeps the elements in the order
  of their insertion, without repetition.
\<close>

type_synonym stringset = "string list"

definition ss_New :: stringset where
  "ss_New = []"

definition ss_Has :: "golib \<Rightarrow> stringset \<Rightarrow> string \<Rightarrow> bool" where
  "ss_Has lib s element = (ToLower lib element \<in> set s)"

definition ss_Insert :: "golib \<Rightarrow> string \<Rightarrow> stringset \<Rightarrow> stringset" where
  "ss_Insert lib element s =
     (if ToLower lib element \<in> set s then s else s @ [ToLower lib element])"

definition ss_InsertMany :: "golib \<Rightarrow> string list \<Rightarrow> stringset \<Rightarrow> stringset" where
  "ss_InsertMany lib elements s = fold (ss_Insert lib) elements s"

definition ss_Remove :: "golib \<Rightarrow> string \<Rightarrow> stringset \<Rightarrow> stringset" where
  "ss_Remove lib element s = removeAll (ToLower lib element) s"

definition ss_Slice :: "stringset \<Rightarrow> string list" where
  "ss_Slice s = s"

definition ss_Len :: "stringset \<Rightarrow> nat" where
  "ss_Len s = length s"

text \<open>
  \<^verbatim>\<open>nameAddrMap\<close>, a Go map from a name to its set of address strings, as an association
  list with one entry per key, in the order the keys were first stored (Go leaves the
  order of iteration open). \<open>ensureSet\<close> is the statement
  \<^verbatim>\<open>if _, found := nameAddrMap[name]; !found { nameAddrMap[name] = stringset.New() }\<close>
  and \<open>insertAddr\<close> is \<^verbatim>\<open>nameAddrMap[name].Insert(addr)\<close>.
\<close>

type_synonym addrMap = "(string \<times> stringset) list"

definition ensureSet :: "string \<Rightarrow> addrMap \<Rightarrow> addrMap" where
  "ensureSet name m = (if map_of m name = None then AList.update name ss_New m else m)"

definition insertAddr :: "golib \<Rightarrow> string \<Rightarrow> string \<Rightarrow> addrMap \<Rightarrow> addrMap" where
  "insertAddr lib name addr m = AList.map_entry name (ss_Insert lib addr) m"

subsection \<open>The asset database as the resolver sees it\<close>

text \<open>
  A relation as \<^verbatim>\<open>RelationQuery\<close> returns it, with both of its assets loaded.
\<close>

record Relation =
  RelType :: string
  FromAsset :: asset
  ToAsset :: asset
  LastSeen :: time

text \<open>
  The SQL texts the code composes, each with its variable parts: the optional
  \<^verbatim>\<open>last_seen > '...'\<close> condition (the formatted cutoff, absent when
  \<^verbatim>\<open>since.IsZero()\<close>) and the names joined into the \<^verbatim>\<open>in ('...')\<close> list, or
  the start name of the recursive query.
  \<^item> \<open>IndirectSQL\<close>: lines 57-68, the SRV/NS/MX join; the cutoff is applied to both
    relations \<^verbatim>\<open>r1\<close> and \<^verbatim>\<open>r2\<close>.
  \<^item> \<open>TraverseSQL\<close>: \<^verbatim>\<open>cnameQuery\<close>, lines 163-182; the cutoff is applied to the
    recursive step and to the final select.
  \<^item> \<open>DirectSQL\<close>: lines 92-98, the constraint given to \<^verbatim>\<open>RelationQuery\<close>.
  \<^item> \<open>AliasSQL\<close>: lines 121-127, the constraint given to \<^verbatim>\<open>AssetQuery\<close>.
\<close>

datatype rawsql = IndirectSQL "nat option" "string list" | TraverseSQL string "nat option"

datatype relsql = DirectSQL "string list" "nat option"

datatype assetsql = AliasSQL "string list" "nat option"

definition sinceClause :: "time \<Rightarrow> nat option" where
  "sinceClause since = (if \<not> IsZero since then Some (Format since) else None)"

text \<open>
  \<^verbatim>\<open>*assetdb.AssetDB\<close>: the three query operations the resolver calls. Each answers
  an error (\<open>Inl\<close>, the error's message) or its rows.
\<close>

record AssetDB =
  RawQuery :: "rawsql \<Rightarrow> string + (string \<times> string) list"
  RelationQuery :: "relsql \<Rightarrow> string + Relation list"
  AssetQuery :: "assetsql \<Rightarrow> string + asset list"

datatype dbcall = RawQueryCall rawsql | RelationQueryCall relsql | AssetQueryCall assetsql

datatype error = StoreError string | NoAddressesDiscovered

subsection \<open>generatePairsFromAddrMap\<close>

record NameAddrPair =
  PairFQDN :: asset
  PairAddr :: asset

text \<open>Lines 190-195: the address type is set from \<^verbatim>\<open>Is4\<close> and \<^verbatim>\<open>Is6\<close>.\<close>

definition typeOf :: "Addr \<Rightarrow> string" where
  "typeOf ip = (if Is4 ip then ''IPv4'' else if Is6 ip then ''IPv6'' else [])"

text \<open>Lines 190-199: the pair built for a name and a parsed address.\<close>

definition newPair :: "string \<Rightarrow> Addr \<Rightarrow> NameAddrPair" where
  "newPair name ip = \<lparr>PairFQDN = FQDN name, PairAddr = IPAddress ip (typeOf ip)\<rparr>"

text \<open>Lines 188-201: the inner loop over the address strings of one name.\<close>

fun addrLoop :: "golib \<Rightarrow> string \<Rightarrow> string list \<Rightarrow> NameAddrPair list \<Rightarrow> NameAddrPair list" where
  "addrLoop lib name [] pairs = pairs"
| "addrLoop lib name (addr # rest) pairs =
     (case ParseAddr lib addr of
        Some ip \<Rightarrow> addrLoop lib name rest (pairs @ [newPair name ip])
      | None \<Rightarrow> addrLoop lib name rest pairs)"

text \<open>Lines 187-202: the outer loop over the entries of the map.\<close>

fun mapLoop :: "golib \<Rightarrow> addrMap \<Rightarrow> NameAddrPair list \<Rightarrow> NameAddrPair list" where
  "mapLoop lib [] pairs = pairs"
| "mapLoop lib ((name, s) # rest) pairs =
     mapLoop lib rest (addrLoop lib name (ss_Slice s) pairs)"

definition generatePairsFromAddrMap :: "golib \<Rightarrow> addrMap \<Rightarrow> error + NameAddrPair list" where
  "generatePairsFromAddrMap lib addrMap =
     (let pairs = mapLoop lib addrMap []
      in if length pairs = 0 then Inl NoAddressesDiscovered else Inr pairs)"

subsection \<open>The stages of NamesToAddrs\<close>

text \<open>
  The variables of \<^verbatim>\<open>NamesToAddrs\<close> that change as it runs, and the list of the
  queries it has sent to the database so far.
\<close>

record resolver =
  calls :: "dbcall list"
  remaining :: stringset
  nameAddrMap :: addrMap

text \<open>Lines 76-85: the loop over the rows of the SRV/NS/MX query.\<close>

fun indirectLoop :: "golib \<Rightarrow> (string \<times> string) list \<Rightarrow> resolver \<Rightarrow> resolver" where
  "indirectLoop lib [] st = st"
| "indirectLoop lib (res # rest) st =
     (if \<not> ss_Has lib (remaining st) (fst res) then indirectLoop lib rest st
      else indirectLoop lib rest
             (st\<lparr>remaining := ss_Remove lib (fst res) (remaining st),
                 nameAddrMap := insertAddr lib (fst res) (snd res)
                                  (ensureSet (fst res) (nameAddrMap st))\<rparr>))"

text \<open>
  Lines 56-86: the query for the addresses behind SRV, NS and MX records. An error of
  the query, like an empty answer, leaves the variables as they are.
\<close>

definition indirectStage :: "golib \<Rightarrow> AssetDB \<Rightarrow> time \<Rightarrow> resolver \<Rightarrow> resolver" where
  "indirectStage lib db since st =
     (let query = IndirectSQL (sinceClause since) (ss_Slice (remaining st));
          st1 = st\<lparr>calls := calls st @ [RawQueryCall query]\<rparr>
      in case RawQuery db query of
           Inr results \<Rightarrow> if length results > 0 then indirectLoop lib results st1 else st1
         | Inl err \<Rightarrow> st1)"

text \<open>Lines 104-114: the loop over the relations of the A/AAAA query.\<close>

fun directLoop :: "golib \<Rightarrow> Relation list \<Rightarrow> resolver \<Rightarrow> resolver" where
  "directLoop lib [] st = st"
| "directLoop lib (rel # rest) st =
     (case FromAsset rel of
        FQDN fname \<Rightarrow>
          (let m = ensureSet fname (nameAddrMap st)
           in case ToAsset rel of
                IPAddress a t \<Rightarrow>
                  directLoop lib rest
                    (st\<lparr>remaining := ss_Remove lib fname (remaining st),
                        nameAddrMap := insertAddr lib fname (AddrString lib a) m\<rparr>)
              | _ \<Rightarrow> directLoop lib rest (st\<lparr>nameAddrMap := m\<rparr>))
      | _ \<Rightarrow> directLoop lib rest st)"

text \<open>
  Lines 92-114: the query for A and AAAA relations. An error of \<^verbatim>\<open>RelationQuery\<close>
  ends the call: \<^verbatim>\<open>return nil, err\<close> (the second component holds the error).
\<close>

definition directStage :: "golib \<Rightarrow> AssetDB \<Rightarrow> time \<Rightarrow> resolver \<Rightarrow> resolver \<times> string option" where
  "directStage lib db since st =
     (let query = DirectSQL (ss_Slice (remaining st)) (sinceClause since);
          st1 = st\<lparr>calls := calls st @ [RelationQueryCall query]\<rparr>
      in case RelationQuery db query of
           Inl err \<Rightarrow> (st1, Some err)
         | Inr rels \<Rightarrow> (directLoop lib rels st1, None))"

text \<open>Lines 134-139: the names of the FQDN assets among the answers.\<close>

fun cnamesOf :: "asset list \<Rightarrow> string list" where
  "cnamesOf [] = []"
| "cnamesOf (a # rest) = (case a of FQDN n \<Rightarrow> n # cnamesOf rest | _ \<Rightarrow> cnamesOf rest)"

definition cnameQuery :: "string \<Rightarrow> time \<Rightarrow> rawsql" where
  "cnameQuery name since = TraverseSQL name (sinceClause since)"

text \<open>Lines 151-156: every row's address is stored under the queried name.\<close>

fun insertRows :: "golib \<Rightarrow> string \<Rightarrow> (string \<times> string) list \<Rightarrow> addrMap \<Rightarrow> addrMap" where
  "insertRows lib name [] m = m"
| "insertRows lib name (res # rest) m =
     insertRows lib name rest (insertAddr lib name (snd res) (ensureSet name m))"

text \<open>
  Lines 142-158: one recursive query per alias name. An error of the query, like an
  empty answer, leaves the variables as they are.
\<close>

fun aliasLoop :: "golib \<Rightarrow> AssetDB \<Rightarrow> time \<Rightarrow> string list \<Rightarrow> resolver \<Rightarrow> resolver" where
  "aliasLoop lib db since [] st = st"
| "aliasLoop lib db since (name # rest) st =
     (let query = cnameQuery name since;
          st1 = st\<lparr>calls := calls st @ [RawQueryCall query]\<rparr>
      in aliasLoop lib db since rest
           (case RawQuery db query of
              Inr results \<Rightarrow>
                if length results > 0
                then st1\<lparr>remaining := ss_Remove lib name (remaining st1),
                         nameAddrMap := insertRows lib name results (nameAddrMap st1)\<rparr>
                else st1
            | Inl err \<Rightarrow> st1))"

text \<open>
  Lines 120-158: the query for the names that have a CNAME record, then the alias
  chains. An error of \<^verbatim>\<open>AssetQuery\<close> ends the call: \<^verbatim>\<open>return nil, err\<close>.
\<close>

definition aliasStage :: "golib \<Rightarrow> AssetDB \<Rightarrow> time \<Rightarrow> resolver \<Rightarrow> resolver \<times> string option" where
  "aliasStage lib db since st =
     (let query = AliasSQL (ss_Slice (remaining st)) (sinceClause since);
          st1 = st\<lparr>calls := calls st @ [AssetQueryCall query]\<rparr>
      in case AssetQuery db query of
           Inl err \<Rightarrow> (st1, Some err)
         | Inr assets \<Rightarrow> (aliasLoop lib db since (cnamesOf assets) st1, None))"

text \<open>
  \<^verbatim>\<open>NamesToAddrs\<close> up to its return statements: the variables at the return, and the
  error of the database when the return is \<^verbatim>\<open>return nil, err\<close>.
\<close>

definition initialResolver :: "golib \<Rightarrow> string list \<Rightarrow> resolver" where
  "initialResolver lib names =
     \<lparr>calls = [], remaining = ss_InsertMany lib names ss_New, nameAddrMap = []\<rparr>"

definition NamesToAddrsRun :: "golib \<Rightarrow> AssetDB \<Rightarrow> time \<Rightarrow> string list \<Rightarrow> resolver \<times> string option" where
  "NamesToAddrsRun lib db since names =
     (let st1 = indirectStage lib db since (initialResolver lib names)
      in if ss_Len (remaining st1) = 0 then (st1, None)
         else case directStage lib db since st1 of
                (st2, Some err) \<Rightarrow> (st2, Some err)
              | (st2, None) \<Rightarrow>
                  if ss_Len (remaining st2) = 0 then (st2, None)
                  else aliasStage lib db since st2)"

text \<open>
  \<^verbatim>\<open>NamesToAddrs\<close>, lines 44-161: every return that is not \<^verbatim>\<open>return nil, err\<close>
  is \<^verbatim>\<open>return generatePairsFromAddrMap(nameAddrMap)\<close>.
\<close>

definition NamesToAddrs :: "golib \<Rightarrow> AssetDB \<Rightarrow> time \<Rightarrow> string list \<Rightarrow> error + NameAddrPair list" where
  "NamesToAddrs lib db since names =
     (case NamesToAddrsRun lib db since names of
        (st, Some err) \<Rightarrow> Inl (StoreError err)
      | (st, None) \<Rightarrow> generatePairsFromAddrMap lib (nameAddrMap st))"

text \<open>The queries a call of \<^verbatim>\<open>NamesToAddrs\<close> sends to the database, in order.\<close>

definition NamesToAddrsCalls :: "golib \<Rightarrow> AssetDB \<Rightarrow> time \<Rightarrow> string list \<Rightarrow> dbcall list" where
  "NamesToAddrsCalls lib db since names = calls (fst (NamesToAddrsRun lib db since names))"

section \<open>Notions used to state the properties of the resolver\<close>

text \<open>
  The name-to-addresses map is well formed when no key occurs twice and no address
  string occurs twice under one key.
\<close>

definition wfMap :: "addrMap \<Rightarrow> bool" where
  "wfMap m = (distinct (map fst m) \<and> (\<forall>e \<in> set m. distinct (snd e)))"

text \<open>
  The (name, address string) pairs a map holds whose address string parses: as a list in
  the order of the map, and as a set.
\<close>

definition sources :: "golib \<Rightarrow> addrMap \<Rightarrow> (string \<times> string) list" where
  "sources lib m =
     concat (map (\<lambda>e. map (Pair (fst e)) (filter (\<lambda>a. ParseAddr lib a \<noteq> None) (snd e))) m)"

definition pairSet :: "golib \<Rightarrow> addrMap \<Rightarrow> (string \<times> string) set" where
  "pairSet lib m = {(n, a). \<exists>s. (n, s) \<in> set m \<and> a \<in> set s \<and> ParseAddr lib a \<noteq> None}"

text \<open>The map with every address string that does not parse taken out.\<close>

definition wellFormedOnly :: "golib \<Rightarrow> addrMap \<Rightarrow> addrMap" where
  "wellFormedOnly lib m = map (\<lambda>e. (fst e, filter (\<lambda>a. ParseAddr lib a \<noteq> None) (snd e))) m"

text \<open>
  The names (lower-cased, as the string set keeps them) for which the relations of the
  A/AAAA query hold an address: the names line 111 removes from \<^verbatim>\<open>remaining\<close>.
\<close>

definition directResolved :: "golib \<Rightarrow> Relation list \<Rightarrow> string set" where
  "directResolved lib rels =
     {ToLower lib fname | fname rel a t.
        rel \<in> set rels \<and> FromAsset rel = FQDN fname \<and> ToAsset rel = IPAddress a t}"

text \<open>The database with every error of \<^verbatim>\<open>RawQuery\<close> replaced by an empty answer.\<close>

definition quietRawQuery :: "AssetDB \<Rightarrow> AssetDB" where
  "quietRawQuery db =
     db\<lparr>RawQuery := (\<lambda>q. case RawQuery db q of Inl err \<Rightarrow> Inr [] | Inr rows \<Rightarrow> Inr rows)\<rparr>"

section \<open>Examples\<close>

text \<open>
  An instance of the library functions for the examples. \<open>ParseAddr\<close> agrees with
  \<^verbatim>\<open>netip.ParseAddr\<close> on the literals listed (the loopback address of IPv6 has the
  two spellings \<^verbatim>\<open>::1\<close> and \<^verbatim>\<open>0:0:0:0:0:0:0:1\<close>) and rejects every other string;
  \<open>AddrString\<close> prints the canonical text, and \<^verbatim>\<open>invalid IP\<close> for the zero value;
  \<open>ToLower\<close> and \<open>EqualFold\<close> treat the letters A-Z.
\<close>

definition lowerASCII :: "char \<Rightarrow> char" where
  "lowerASCII c =
     (if 65 \<le> (of_char c :: nat) \<and> (of_char c :: nat) \<le> 90
      then char_of ((of_char c :: nat) + 32) else c)"

definition exampleLib :: golib where
  "exampleLib = \<lparr>
     ParseAddr = (\<lambda>s.
       if s = ''93.184.216.34'' then Some (Addr4 1572395042)
       else if s = ''203.0.113.7'' then Some (Addr4 3405803783)
       else if s = ''::1'' then Some (Addr6 1 [])
       else if s = ''0:0:0:0:0:0:0:1'' then Some (Addr6 1 [])
       else None),
     AddrString = (\<lambda>a.
       if a = Addr4 1572395042 then ''93.184.216.34''
       else if a = Addr4 3405803783 then ''203.0.113.7''
       else if a = Addr6 1 [] then ''::1''
       else ''invalid IP''),
     ToLower = map lowerASCII,
     EqualFold = (\<lambda>s t. map lowerASCII s = map lowerASCII t) \<rparr>"

text \<open>
  A database for the examples: a.example.com has an A record, b.example.com has a CNAME
  record and its alias chain ends at 203.0.113.7 and at an address text that does not
  parse; no name has an SRV, NS or MX record.
\<close>

definition exampleDB :: AssetDB where
  "exampleDB = \<lparr>
     RawQuery = (\<lambda>q. case q of
         IndirectSQL c ns \<Rightarrow> Inr []
       | TraverseSQL n c \<Rightarrow>
           if n = ''b.example.com''
           then Inr [(''d.example.com'', ''203.0.113.7''), (''d.example.com'', ''not-an-address'')]
           else Inr []),
     RelationQuery = (\<lambda>q. case q of
         DirectSQL ns c \<Rightarrow>
           if ''a.example.com'' \<in> set ns
           then Inr [\<lparr>RelType = ''a_record'', FromAsset = FQDN ''a.example.com'',
                       ToAsset = IPAddress (Addr4 1572395042) ''IPv4'', LastSeen = 5000000000\<rparr>]
           else Inr []),
     AssetQuery = (\<lambda>q. case q of
         AliasSQL ns c \<Rightarrow>
           if ''b.example.com'' \<in> set ns then Inr [FQDN ''b.example.com''] else Inr []) \<rparr>"

text \<open>The same database when its relation query fails.\<close>

definition failingDB :: AssetDB where
  "failingDB = exampleDB\<lparr>RelationQuery := (\<lambda>q. Inl ''connection refused'')\<rparr>"

text \<open>
  A database whose alias chain of b.example.com reaches the IPv6 loopback address under
  both of its spellings.
\<close>

definition spellingDB :: AssetDB where
  "spellingDB = \<lparr>
     RawQuery = (\<lambda>q. case q of
         IndirectSQL c ns \<Rightarrow> Inr []
       | TraverseSQL n c \<Rightarrow>
           if n = ''b.example.com''
           then Inr [(''c.example.com'', ''::1''), (''d.example.com'', ''0:0:0:0:0:0:0:1'')]
           else Inr []),
     RelationQuery = (\<lambda>q. Inr []),
     AssetQuery = (\<lambda>q. case q of
         AliasSQL ns c \<Rightarrow>
           if ''b.example.com'' \<in> set ns then Inr [FQDN ''b.example.com''] else Inr []) \<rparr>"

section \<open>Properties of the scope engine\<close>





text \<open>
  Claim C9. An asset whose kind has no case in the type switch is never in scope: for
  every confidence floor the result is (nil, 0).
\<close>

theorem IsAssetInScope_unhandled_kind:
  "\<not> handledKind a \<Longrightarrow> IsAssetInScope s a conf = (None, 0)"
  by (cases a) simp_all

theorem IsAssetInScope_unhandled_kind_witness:
  "\<not> handledKind (OtherAsset ''Person'') \<and>
   IsAssetInScope exampleScope (OtherAsset ''Person'') 60 = (None, 0)"
  using IsAssetInScope_unhandled_kind [of "OtherAsset ''Person''" exampleScope 60]
  by simp

text \<open>
  Claim C1, as stated: the accuracy returned for a composite record is the maximum of
  the accuracies of its two projections. It fails: for a domain record whose domain
  matches with accuracy 50 and whose organization name matches with accuracy 100, the
  code returns the domain match with accuracy 50.
\<close>

theorem IsAssetInScope_composite_max_counterexample:
  "IsAssetInScope exampleScope (DomainRecord ''www.example.com'' ''Example Corp'') 0
     = (Some (FQDN ''example.com''), 50) \<and>
   matchesDomain exampleScope (FQDN ''www.example.com'') = (Some (FQDN ''example.com''), 50) \<and>
   matchesOrg exampleScope (Organization ''Example Corp'') 0
     = (Some (Organization ''Example Corp''), 100) \<and>
   snd (IsAssetInScope exampleScope (DomainRecord ''www.example.com'' ''Example Corp'') 0)
     \<noteq> max (snd (matchesDomain exampleScope (FQDN ''www.example.com'')))
           (snd (matchesOrg exampleScope (Organization ''Example Corp'') 0))"
  by (simp add: exampleScope_def)

text \<open>
  Claim C1, amended. For a DomainRecord (domain name and organization name) and for an
  AutnumRecord (ASN and organization name), the result is the first projection's result
  when that is a match (asset not nil, accuracy not 0), and the organization projection's
  result otherwise. So a match is reported exactly when either projection matches, and
  the accuracy is that of the first projection that matches.
\<close>

theorem IsAssetInScope_composite_first_match:
  "IsAssetInScope s (DomainRecord d n) conf =
     (if isMatch (matchesDomain s (FQDN d)) then matchesDomain s (FQDN d)
      else matchesOrg s (Organization n) conf) \<and>
   IsAssetInScope s (AutnumRecord num n) conf =
     (if isMatch (matchesAutonomousSystem s (AutonomousSystem num))
      then matchesAutonomousSystem s (AutonomousSystem num)
      else matchesOrg s (Organization n) conf) \<and>
   (isMatch (IsAssetInScope s (DomainRecord d n) conf) \<longleftrightarrow>
      isMatch (matchesDomain s (FQDN d)) \<or> isMatch (matchesOrg s (Organization n) conf)) \<and>
   (isMatch (IsAssetInScope s (AutnumRecord num n) conf) \<longleftrightarrow>
      isMatch (matchesAutonomousSystem s (AutonomousSystem num)) \<or>
      isMatch (matchesOrg s (Organization n) conf))"
  by (auto simp: isMatch_def split: prod.splits)

theorem IsAssetInScope_composite_first_match_witness:
  "IsAssetInScope exampleScope (DomainRecord ''other.org'' ''Example Corp'') 0
     = (Some (Organization ''Example Corp''), 100) \<and>
   IsAssetInScope exampleScope (AutnumRecord 64500 ''Example Corp'') 0
     = (Some (AutonomousSystem 64500), 100) \<and>
   isMatch (IsAssetInScope exampleScope (DomainRecord ''other.org'' ''Example Corp'') 0) \<and>
   isMatch (IsAssetInScope exampleScope (AutnumRecord 64500 ''Example Corp'') 0)"
  using IsAssetInScope_composite_first_match
    [of exampleScope "''other.org''" "''Example Corp''" 0 64500]
  by (simp add: exampleScope_def isMatch_def)

section \<open>Properties of the resolver\<close>

subsection \<open>The loops of generatePairsFromAddrMap\<close>

lemma addrLoop_append:
  "addrLoop lib name addrs pairs =
     pairs @ map (\<lambda>a. newPair name (the (ParseAddr lib a)))
               (filter (\<lambda>a. ParseAddr lib a \<noteq> None) addrs)"
  by (induction addrs arbitrary: pairs) (auto split: option.splits)

lemma mapLoop_sources:
  "mapLoop lib m pairs =
     pairs @ map (\<lambda>e. newPair (fst e) (the (ParseAddr lib (snd e)))) (sources lib m)"
  by (induction m arbitrary: pairs)
     (auto simp: addrLoop_append ss_Slice_def sources_def comp_def)

lemma sources_set:
  "set (sources lib m) = {(n, a). \<exists>s. (n, s) \<in> set m \<and> a \<in> set s \<and> ParseAddr lib a \<noteq> None}"
  by (auto simp: sources_def)

lemma sources_distinct: "wfMap m \<Longrightarrow> distinct (sources lib m)"
proof (induction m)
  case Nil
  then show ?case by (simp add: sources_def)
next
  case (Cons e m)
  then have wf: "wfMap m" and d: "distinct (snd e)" and k: "fst e \<notin> fst ` set m"
    by (auto simp: wfMap_def)
  have tl: "distinct (sources lib m)" using Cons.IH wf by simp
  have hd: "distinct (map (Pair (fst e)) (filter (\<lambda>a. ParseAddr lib a \<noteq> None) (snd e)))"
    using d by (simp add: distinct_map inj_on_def)
  have disj: "set (map (Pair (fst e)) (filter (\<lambda>a. ParseAddr lib a \<noteq> None) (snd e)))
                \<inter> set (sources lib m) = {}"
  proof -
    have "False" if "(fst e, a) \<in> set (sources lib m)" for a
    proof -
      from that obtain s where "(fst e, s) \<in> set m" by (auto simp: sources_set)
      then have "fst (fst e, s) \<in> fst ` set m" by (rule imageI)
      with k show False by simp
    qed
    then show ?thesis by auto
  qed
  have "sources lib (e # m) =
          map (Pair (fst e)) (filter (\<lambda>a. ParseAddr lib a \<noteq> None) (snd e)) @ sources lib m"
    by (simp add: sources_def)
  with tl hd disj show ?case by simp
qed

subsection \<open>The map stays well formed\<close>

lemma ss_Insert_distinct: "distinct s \<Longrightarrow> distinct (ss_Insert lib a s)"
  by (simp add: ss_Insert_def)

lemma update_new_set: "map_of m k = None \<Longrightarrow> set (AList.update k v m) = insert (k, v) (set m)"
  by (induction m) (auto split: if_splits)

lemma ensureSet_wf: "wfMap m \<Longrightarrow> wfMap (ensureSet name m)"
  by (auto simp: wfMap_def ensureSet_def ss_New_def distinct_update update_new_set)

lemma map_entry_set:
  "e \<in> set (AList.map_entry k f m) \<Longrightarrow> e \<in> set m \<or> (\<exists>v. (k, v) \<in> set m \<and> e = (k, f v))"
  by (induction m) (auto split: if_splits)

lemma insertAddr_wf: "wfMap m \<Longrightarrow> wfMap (insertAddr lib name addr m)"
  unfolding wfMap_def insertAddr_def
  by (auto simp: distinct_map_entry ss_Insert_distinct dest!: map_entry_set)

lemma indirectLoop_wf: "wfMap (nameAddrMap st) \<Longrightarrow> wfMap (nameAddrMap (indirectLoop lib rows st))"
  by (induction rows arbitrary: st) (auto simp: ensureSet_wf insertAddr_wf)

lemma directLoop_wf: "wfMap (nameAddrMap st) \<Longrightarrow> wfMap (nameAddrMap (directLoop lib rels st))"
  by (induction rels arbitrary: st)
     (auto simp: ensureSet_wf insertAddr_wf Let_def split: asset.splits)

lemma insertRows_wf: "wfMap m \<Longrightarrow> wfMap (insertRows lib name rows m)"
  by (induction rows arbitrary: m) (auto simp: ensureSet_wf insertAddr_wf)

lemma aliasLoop_wf:
  "wfMap (nameAddrMap st) \<Longrightarrow> wfMap (nameAddrMap (aliasLoop lib db since cnames st))"
  by (induction cnames arbitrary: st)
     (auto simp: insertRows_wf Let_def split: sum.splits)

lemma NamesToAddrsRun_wf: "wfMap (nameAddrMap (fst (NamesToAddrsRun lib db since names)))"
proof -
  have 0: "wfMap (nameAddrMap (initialResolver lib names))"
    by (simp add: initialResolver_def wfMap_def)
  have 1: "wfMap (nameAddrMap (indirectStage lib db since st))" if "wfMap (nameAddrMap st)" for st
    using that by (auto simp: indirectStage_def Let_def indirectLoop_wf split: sum.splits)
  have 2: "wfMap (nameAddrMap (fst (directStage lib db since st)))" if "wfMap (nameAddrMap st)" for st
    using that by (auto simp: directStage_def Let_def directLoop_wf split: sum.splits)
  have 3: "wfMap (nameAddrMap (fst (aliasStage lib db since st)))" if "wfMap (nameAddrMap st)" for st
    using that by (auto simp: aliasStage_def Let_def aliasLoop_wf split: sum.splits)
  show ?thesis
    unfolding NamesToAddrsRun_def Let_def
    using 1[OF 0] 2[OF 1[OF 0]] 3[OF 2[OF 1[OF 0]]]
    by (auto split: prod.splits option.splits)
qed

subsection \<open>The queries sent and the names left after each stage\<close>

lemma indirectLoop_calls: "calls (indirectLoop lib rows st) = calls st"
  by (induction rows arbitrary: st) auto

lemma indirectLoop_remaining:
  "remaining (indirectLoop lib rows st) =
     filter (\<lambda>n. n \<notin> ToLower lib ` fst ` set rows) (remaining st)"
proof (induction rows arbitrary: st)
  case Nil
  then show ?case by simp
next
  case (Cons res rows)
  have a: "filter (\<lambda>n. n \<notin> ToLower lib ` fst ` set rows) (removeAll (ToLower lib (fst res)) s) =
           filter (\<lambda>n. n \<notin> ToLower lib ` fst ` set (res # rows)) s" for s
    by (induction s) auto
  have b: "ToLower lib (fst res) \<notin> set s \<Longrightarrow>
           filter (\<lambda>n. n \<notin> ToLower lib ` fst ` set rows) s =
           filter (\<lambda>n. n \<notin> ToLower lib ` fst ` set (res # rows)) s" for s
    by (induction s) auto
  show ?case
    by (simp add: Cons.IH ss_Has_def ss_Remove_def a b del: set_simps)
qed

lemma directLoop_calls: "calls (directLoop lib rels st) = calls st"
  by (induction rels arbitrary: st) (auto simp: Let_def split: asset.splits)

lemma directResolved_Cons:
  "directResolved lib (rel # rels) =
     (case FromAsset rel of
        FQDN fname \<Rightarrow> (case ToAsset rel of IPAddress a t \<Rightarrow> {ToLower lib fname} | _ \<Rightarrow> {})
      | _ \<Rightarrow> {}) \<union> directResolved lib rels"
  by (auto simp: directResolved_def split: asset.splits)

lemma directLoop_remaining:
  "remaining (directLoop lib rels st) =
     filter (\<lambda>n. n \<notin> directResolved lib rels) (remaining st)"
proof (induction rels arbitrary: st)
  case Nil
  then show ?case by (simp add: directResolved_def)
next
  case (Cons rel rels)
  have a: "filter (\<lambda>n. n \<notin> A) (removeAll x s) = filter (\<lambda>n. n \<notin> insert x A) s"
    for A :: "string set" and x s
    by (induction s) auto
  show ?case
    by (auto simp: Cons.IH directResolved_Cons Let_def ss_Remove_def a split: asset.splits)
qed

lemma aliasLoop_calls:
  "calls (aliasLoop lib db since cnames st) =
     calls st @ map (\<lambda>n. RawQueryCall (cnameQuery n since)) cnames"
  by (induction cnames arbitrary: st) (auto simp: Let_def split: sum.splits)

lemma indirectStage_calls:
  "calls (indirectStage lib db since st) =
     calls st @ [RawQueryCall (IndirectSQL (sinceClause since) (remaining st))]"
  by (simp add: indirectStage_def Let_def ss_Slice_def indirectLoop_calls split: sum.splits)

lemma indirectStage_remaining:
  "remaining (indirectStage lib db since st) =
     (case RawQuery db (IndirectSQL (sinceClause since) (remaining st)) of
        Inr rows \<Rightarrow> filter (\<lambda>n. n \<notin> ToLower lib ` fst ` set rows) (remaining st)
      | Inl err \<Rightarrow> remaining st)"
  by (simp add: indirectStage_def Let_def ss_Slice_def indirectLoop_remaining split: sum.splits)

lemma directStage_calls:
  "calls (fst (directStage lib db since st)) =
     calls st @ [RelationQueryCall (DirectSQL (remaining st) (sinceClause since))]"
  by (simp add: directStage_def Let_def ss_Slice_def directLoop_calls split: sum.splits)

lemma directStage_error:
  "snd (directStage lib db since st) =
     (case RelationQuery db (DirectSQL (remaining st) (sinceClause since)) of
        Inl err \<Rightarrow> Some err | Inr rels \<Rightarrow> None)"
  by (simp add: directStage_def Let_def ss_Slice_def split: sum.splits)

lemma directStage_remaining:
  "remaining (fst (directStage lib db since st)) =
     (case RelationQuery db (DirectSQL (remaining st) (sinceClause since)) of
        Inr rels \<Rightarrow> filter (\<lambda>n. n \<notin> directResolved lib rels) (remaining st)
      | Inl err \<Rightarrow> remaining st)"
  by (simp add: directStage_def Let_def ss_Slice_def directLoop_remaining split: sum.splits)

lemma aliasStage_calls:
  "calls (fst (aliasStage lib db since st)) =
     calls st @ [AssetQueryCall (AliasSQL (remaining st) (sinceClause since))] @
     (case AssetQuery db (AliasSQL (remaining st) (sinceClause since)) of
        Inr assets \<Rightarrow> map (\<lambda>n. RawQueryCall (cnameQuery n since)) (cnamesOf assets)
      | Inl err \<Rightarrow> [])"
  by (simp add: aliasStage_def Let_def ss_Slice_def aliasLoop_calls split: sum.splits)

lemma aliasStage_error:
  "snd (aliasStage lib db since st) =
     (case AssetQuery db (AliasSQL (remaining st) (sinceClause since)) of
        Inl err \<Rightarrow> Some err | Inr assets \<Rightarrow> None)"
  by (simp add: aliasStage_def Let_def ss_Slice_def split: sum.splits)

lemma initialResolver_simps:
  "calls (initialResolver lib names) = []"
  "remaining (initialResolver lib names) = ss_InsertMany lib names ss_New"
  "nameAddrMap (initialResolver lib names) = []"
  by (simp_all add: initialResolver_def)

lemma NamesToAddrsRun_unfold:
  "NamesToAddrsRun lib db since names =
     (let st1 = indirectStage lib db since (initialResolver lib names)
      in if remaining st1 = [] then (st1, None)
         else let r2 = directStage lib db since st1
              in if snd r2 \<noteq> None \<or> remaining (fst r2) = [] then r2
                 else aliasStage lib db since (fst r2))"
  by (auto simp: NamesToAddrsRun_def Let_def ss_Len_def split: prod.splits option.splits)

subsection \<open>What generatePairsFromAddrMap returns\<close>

lemma sources_pairSet: "set (sources lib m) = pairSet lib m"
  by (simp add: sources_set pairSet_def)

lemma generatePairs_sources:
  "generatePairsFromAddrMap lib m =
     (if sources lib m = [] then Inl NoAddressesDiscovered
      else Inr (map (\<lambda>e. newPair (fst e) (the (ParseAddr lib (snd e)))) (sources lib m)))"
  by (simp add: generatePairsFromAddrMap_def Let_def mapLoop_sources)

lemma sources_wellFormedOnly: "sources lib (wellFormedOnly lib m) = sources lib m"
  by (simp add: sources_def wellFormedOnly_def comp_def)

lemma typeOf_tag: "(typeOf ip = ''IPv4'' \<longleftrightarrow> Is4 ip) \<and> (typeOf ip = ''IPv6'' \<longleftrightarrow> Is6 ip)"
  by (cases ip) (auto simp: typeOf_def)

lemma NamesToAddrs_cases:
  "NamesToAddrs lib db since names =
     (case snd (NamesToAddrsRun lib db since names) of
        Some err \<Rightarrow> Inl (StoreError err)
      | None \<Rightarrow> generatePairsFromAddrMap lib (nameAddrMap (fst (NamesToAddrsRun lib db since names))))"
  by (simp add: NamesToAddrs_def split: prod.splits option.splits)

subsection \<open>The example databases, evaluated\<close>

lemmas stage_defs = NamesToAddrsRun_def initialResolver_def
  indirectStage_def directStage_def aliasStage_def cnameQuery_def sinceClause_def IsZero_def
  Format_def ss_InsertMany_def ss_Insert_def ss_New_def ss_Len_def ss_Slice_def ss_Remove_def
  ss_Has_def ensureSet_def insertAddr_def Let_def

lemma exampleLib_ToLower:
  "ToLower exampleLib ''a.example.com'' = ''a.example.com''"
  "ToLower exampleLib ''b.example.com'' = ''b.example.com''"
  "ToLower exampleLib ''93.184.216.34'' = ''93.184.216.34''"
  "ToLower exampleLib ''203.0.113.7'' = ''203.0.113.7''"
  "ToLower exampleLib ''not-an-address'' = ''not-an-address''"
  "ToLower exampleLib ''::1'' = ''::1''"
  "ToLower exampleLib ''0:0:0:0:0:0:0:1'' = ''0:0:0:0:0:0:0:1''"
  by (simp_all add: exampleLib_def lowerASCII_def)

lemma exampleLib_AddrString:
  "AddrString exampleLib (Addr4 1572395042) = ''93.184.216.34''"
  by (simp add: exampleLib_def)

lemma exampleLib_ParseAddr:
  "ParseAddr exampleLib ''93.184.216.34'' = Some (Addr4 1572395042)"
  "ParseAddr exampleLib ''203.0.113.7'' = Some (Addr4 3405803783)"
  "ParseAddr exampleLib ''not-an-address'' = None"
  "ParseAddr exampleLib ''::1'' = Some (Addr6 1 [])"
  "ParseAddr exampleLib ''0:0:0:0:0:0:0:1'' = Some (Addr6 1 [])"
  by (simp_all add: exampleLib_def)

lemma run_exampleDB:
  "NamesToAddrsRun exampleLib exampleDB 0 [''a.example.com'', ''b.example.com''] =
     (\<lparr>calls = [RawQueryCall (IndirectSQL None [''a.example.com'', ''b.example.com'']),
                RelationQueryCall (DirectSQL [''a.example.com'', ''b.example.com''] None),
                AssetQueryCall (AliasSQL [''b.example.com''] None),
                RawQueryCall (TraverseSQL ''b.example.com'' None)],
       remaining = [],
       nameAddrMap = [(''a.example.com'', [''93.184.216.34'']),
                      (''b.example.com'', [''203.0.113.7'', ''not-an-address''])]\<rparr>, None)"
  by (simp add: stage_defs exampleDB_def exampleLib_ToLower exampleLib_AddrString)

lemma run_spellingDB:
  "NamesToAddrsRun exampleLib spellingDB 0 [''b.example.com''] =
     (\<lparr>calls = [RawQueryCall (IndirectSQL None [''b.example.com'']),
                RelationQueryCall (DirectSQL [''b.example.com''] None),
                AssetQueryCall (AliasSQL [''b.example.com''] None),
                RawQueryCall (TraverseSQL ''b.example.com'' None)],
       remaining = [],
       nameAddrMap = [(''b.example.com'', [''::1'', ''0:0:0:0:0:0:0:1''])]\<rparr>, None)"
  by (simp add: stage_defs spellingDB_def exampleLib_ToLower)

lemma run_failingDB:
  "NamesToAddrsRun exampleLib failingDB 0 [''a.example.com'', ''b.example.com''] =
     (\<lparr>calls = [RawQueryCall (IndirectSQL None [''a.example.com'', ''b.example.com'']),
                RelationQueryCall (DirectSQL [''a.example.com'', ''b.example.com''] None)],
       remaining = [''a.example.com'', ''b.example.com''],
       nameAddrMap = []\<rparr>, Some ''connection refused'')"
  by (simp add: stage_defs failingDB_def exampleDB_def exampleLib_ToLower)

lemma pairs_exampleDB:
  "generatePairsFromAddrMap exampleLib
     [(''a.example.com'', [''93.184.216.34'']),
      (''b.example.com'', [''203.0.113.7'', ''not-an-address''])] =
   Inr [newPair ''a.example.com'' (Addr4 1572395042),
        newPair ''b.example.com'' (Addr4 3405803783)]"
  by (simp add: generatePairsFromAddrMap_def ss_Slice_def exampleLib_ParseAddr)

lemma pairs_spellingDB:
  "generatePairsFromAddrMap exampleLib [(''b.example.com'', [''::1'', ''0:0:0:0:0:0:0:1''])] =
   Inr [newPair ''b.example.com'' (Addr6 1 []), newPair ''b.example.com'' (Addr6 1 [])]"
  by (simp add: generatePairsFromAddrMap_def ss_Slice_def exampleLib_ParseAddr)

lemma result_exampleDB:
  "NamesToAddrs exampleLib exampleDB 0 [''a.example.com'', ''b.example.com''] =
   Inr [newPair ''a.example.com'' (Addr4 1572395042),
        newPair ''b.example.com'' (Addr4 3405803783)]"
  by (simp add: NamesToAddrs_def run_exampleDB pairs_exampleDB)

lemma result_spellingDB:
  "NamesToAddrs exampleLib spellingDB 0 [''b.example.com''] =
   Inr [newPair ''b.example.com'' (Addr6 1 []), newPair ''b.example.com'' (Addr6 1 [])]"
  by (simp add: NamesToAddrs_def run_spellingDB pairs_spellingDB)

lemma result_failingDB:
  "NamesToAddrs exampleLib failingDB 0 [''a.example.com'', ''b.example.com''] =
   Inl (StoreError ''connection refused'')"
  by (simp add: NamesToAddrs_def run_failingDB)

subsection \<open>The pairs returned\<close>

text \<open>
  Claim C6. Every pair returned stems from an address string stored for its name that
  \<open>ParseAddr\<close> accepts; it carries the parsed address, with type "IPv4" exactly when
  the address is IPv4 and "IPv6" exactly when it is IPv6. Address strings that do not
  parse are dropped without an error of their own: the result is the one computed from
  the map with those strings taken out.
\<close>

theorem NamesToAddrs_pairs_parsed_and_tagged:
  "(\<forall>pairs p. NamesToAddrs lib db since names = Inr pairs \<longrightarrow> p \<in> set pairs \<longrightarrow>
      (\<exists>name s addr ip.
         (name, s) \<in> set (nameAddrMap (fst (NamesToAddrsRun lib db since names))) \<and>
         addr \<in> set s \<and> ParseAddr lib addr = Some ip \<and>
         p = \<lparr>PairFQDN = FQDN name, PairAddr = IPAddress ip (typeOf ip)\<rparr> \<and>
         (typeOf ip = ''IPv4'' \<longleftrightarrow> Is4 ip) \<and> (typeOf ip = ''IPv6'' \<longleftrightarrow> Is6 ip))) \<and>
   NamesToAddrs lib db since names =
     (case NamesToAddrsRun lib db since names of
        (st, Some err) \<Rightarrow> Inl (StoreError err)
      | (st, None) \<Rightarrow> generatePairsFromAddrMap lib (wellFormedOnly lib (nameAddrMap st)))"
proof (intro conjI allI impI)
  fix pairs p
  assume res: "NamesToAddrs lib db since names = Inr pairs" and p: "p \<in> set pairs"
  let ?m = "nameAddrMap (fst (NamesToAddrsRun lib db since names))"
  from res have "generatePairsFromAddrMap lib ?m = Inr pairs"
    by (auto simp: NamesToAddrs_cases split: option.splits)
  then have "pairs = map (\<lambda>e. newPair (fst e) (the (ParseAddr lib (snd e)))) (sources lib ?m)"
    by (auto simp: generatePairs_sources split: if_splits)
  with p obtain e where e: "e \<in> set (sources lib ?m)"
    and pe: "p = newPair (fst e) (the (ParseAddr lib (snd e)))" by auto
  from e obtain s ip where "(fst e, s) \<in> set ?m" "snd e \<in> set s" "ParseAddr lib (snd e) = Some ip"
    by (auto simp: sources_set)
  with pe typeOf_tag [of ip]
  show "\<exists>name s addr ip. (name, s) \<in> set ?m \<and> addr \<in> set s \<and> ParseAddr lib addr = Some ip \<and>
         p = \<lparr>PairFQDN = FQDN name, PairAddr = IPAddress ip (typeOf ip)\<rparr> \<and>
         (typeOf ip = ''IPv4'' \<longleftrightarrow> Is4 ip) \<and> (typeOf ip = ''IPv6'' \<longleftrightarrow> Is6 ip)"
    by (auto simp: newPair_def)
next
  show "NamesToAddrs lib db since names =
     (case NamesToAddrsRun lib db since names of
        (st, Some err) \<Rightarrow> Inl (StoreError err)
      | (st, None) \<Rightarrow> generatePairsFromAddrMap lib (wellFormedOnly lib (nameAddrMap st)))"
    by (simp add: NamesToAddrs_def generatePairs_sources sources_wellFormedOnly
        split: prod.splits option.splits)
qed

theorem NamesToAddrs_pairs_parsed_and_tagged_witness:
  "NamesToAddrs exampleLib exampleDB 0 [''a.example.com'', ''b.example.com''] =
     Inr [\<lparr>PairFQDN = FQDN ''a.example.com'', PairAddr = IPAddress (Addr4 1572395042) ''IPv4''\<rparr>,
          \<lparr>PairFQDN = FQDN ''b.example.com'', PairAddr = IPAddress (Addr4 3405803783) ''IPv4''\<rparr>] \<and>
   ParseAddr exampleLib ''not-an-address'' = None \<and>
   wellFormedOnly exampleLib
     (nameAddrMap (fst (NamesToAddrsRun exampleLib exampleDB 0 [''a.example.com'', ''b.example.com'']))) =
     [(''a.example.com'', [''93.184.216.34'']), (''b.example.com'', [''203.0.113.7''])]"
proof -
  have w: "wellFormedOnly exampleLib
       [(''a.example.com'', [''93.184.216.34'']),
        (''b.example.com'', [''203.0.113.7'', ''not-an-address''])] =
       [(''a.example.com'', [''93.184.216.34'']), (''b.example.com'', [''203.0.113.7''])]"
    by (simp add: wellFormedOnly_def exampleLib_ParseAddr)
  have g: "generatePairsFromAddrMap exampleLib
       [(''a.example.com'', [''93.184.216.34'']), (''b.example.com'', [''203.0.113.7''])] =
     Inr [newPair ''a.example.com'' (Addr4 1572395042),
          newPair ''b.example.com'' (Addr4 3405803783)]"
    by (simp add: generatePairsFromAddrMap_def ss_Slice_def exampleLib_ParseAddr)
  from NamesToAddrs_pairs_parsed_and_tagged
         [of exampleLib exampleDB 0 "[''a.example.com'', ''b.example.com'']"]
  have "NamesToAddrs exampleLib exampleDB 0 [''a.example.com'', ''b.example.com''] =
     (case NamesToAddrsRun exampleLib exampleDB 0 [''a.example.com'', ''b.example.com''] of
        (st, Some err) \<Rightarrow> Inl (StoreError err)
      | (st, None) \<Rightarrow> generatePairsFromAddrMap exampleLib (wellFormedOnly exampleLib (nameAddrMap st)))"
    by (rule conjunct2)
  then have "NamesToAddrs exampleLib exampleDB 0 [''a.example.com'', ''b.example.com''] =
     Inr [newPair ''a.example.com'' (Addr4 1572395042),
          newPair ''b.example.com'' (Addr4 3405803783)]"
    by (simp add: run_exampleDB w g)
  then show ?thesis
    by (simp add: run_exampleDB w exampleLib_ParseAddr newPair_def typeOf_def)
qed



text \<open>
  Claim C5, as stated: a successful call never returns the same (hostname, address)
  pair twice. It fails when the database reports one address under two spellings: the
  alias chain of b.example.com yields the texts "::1" and "0:0:0:0:0:0:0:1", both are
  kept in the string set of the name, both parse to the same address, and the list
  returned holds the pair twice.
\<close>

theorem NamesToAddrs_duplicate_pair_counterexample:
  "NamesToAddrs exampleLib spellingDB 0 [''b.example.com''] =
     Inr [\<lparr>PairFQDN = FQDN ''b.example.com'', PairAddr = IPAddress (Addr6 1 []) ''IPv6''\<rparr>,
          \<lparr>PairFQDN = FQDN ''b.example.com'', PairAddr = IPAddress (Addr6 1 []) ''IPv6''\<rparr>] \<and>
   \<not> distinct (projr (NamesToAddrs exampleLib spellingDB 0 [''b.example.com'']))"
  by (simp add: result_spellingDB newPair_def typeOf_def)

text \<open>
  Claim C5, amended. The list a successful call returns holds one pair for each
  (hostname, address string) stored in the map whose address string parses, and no
  such (hostname, address string) is taken twice: the keys of the map are distinct and
  each name's address strings are a set. So no pair is returned twice provided no two
  address strings stored for one hostname parse to the same address.
\<close>

theorem NamesToAddrs_distinct_sources:
  assumes "NamesToAddrs lib db since names = Inr pairs"
  shows "\<exists>src. distinct src \<and>
           set src = pairSet lib (nameAddrMap (fst (NamesToAddrsRun lib db since names))) \<and>
           pairs = map (\<lambda>e. newPair (fst e) (the (ParseAddr lib (snd e)))) src \<and>
           (inj_on (\<lambda>e. (fst e, ParseAddr lib (snd e))) (set src) \<longrightarrow> distinct pairs)"
proof -
  let ?m = "nameAddrMap (fst (NamesToAddrsRun lib db since names))"
  let ?f = "\<lambda>e. newPair (fst e) (the (ParseAddr lib (snd e)))"
  from assms have "generatePairsFromAddrMap lib ?m = Inr pairs"
    by (auto simp: NamesToAddrs_cases split: option.splits)
  then have pairs: "pairs = map ?f (sources lib ?m)"
    by (auto simp: generatePairs_sources split: if_splits)
  have d: "distinct (sources lib ?m)"
    by (rule sources_distinct) (rule NamesToAddrsRun_wf)
  have "distinct pairs" if inj: "inj_on (\<lambda>e. (fst e, ParseAddr lib (snd e))) (set (sources lib ?m))"
  proof -
    have "inj_on ?f (set (sources lib ?m))"
    proof (rule inj_onI)
      fix x y
      assume x: "x \<in> set (sources lib ?m)" and y: "y \<in> set (sources lib ?m)" and eq: "?f x = ?f y"
      from x y obtain a b where "ParseAddr lib (snd x) = Some a" "ParseAddr lib (snd y) = Some b"
        by (auto simp: sources_set)
      with eq have "(fst x, ParseAddr lib (snd x)) = (fst y, ParseAddr lib (snd y))"
        by (simp add: newPair_def)
      with inj x y show "x = y" by (auto dest: inj_onD)
    qed
    with d pairs show ?thesis by (simp add: distinct_map)
  qed
  with d pairs sources_pairSet [of lib ?m] show ?thesis by blast
qed

theorem NamesToAddrs_distinct_sources_witness:
  "NamesToAddrs exampleLib exampleDB 0 [''a.example.com'', ''b.example.com''] =
     Inr [newPair ''a.example.com'' (Addr4 1572395042),
          newPair ''b.example.com'' (Addr4 3405803783)] \<and>
   (\<exists>src. distinct src \<and>
      set src = pairSet exampleLib
        (nameAddrMap (fst (NamesToAddrsRun exampleLib exampleDB 0 [''a.example.com'', ''b.example.com'']))) \<and>
      [newPair ''a.example.com'' (Addr4 1572395042), newPair ''b.example.com'' (Addr4 3405803783)] =
        map (\<lambda>e. newPair (fst e) (the (ParseAddr exampleLib (snd e)))) src)"
proof -
  define names where "names = [''a.example.com'', ''b.example.com'']"
  define pairs where "pairs = [newPair ''a.example.com'' (Addr4 1572395042),
          newPair ''b.example.com'' (Addr4 3405803783)]"
  have r: "NamesToAddrs exampleLib exampleDB 0 names = Inr pairs"
    unfolding names_def pairs_def by (rule result_exampleDB)
  from NamesToAddrs_distinct_sources [OF r] r
  have "NamesToAddrs exampleLib exampleDB 0 names = Inr pairs \<and>
   (\<exists>src. distinct src \<and>
      set src = pairSet exampleLib (nameAddrMap (fst (NamesToAddrsRun exampleLib exampleDB 0 names))) \<and>
      pairs = map (\<lambda>e. newPair (fst e) (the (ParseAddr exampleLib (snd e)))) src)"
    by blast
  then show ?thesis unfolding names_def pairs_def .
qed

end

